theory Spec2Isabelle
  imports Main "HOL-Library.Word" "HOL-Library.Stream"
begin

unbundle bit_operations_syntax

section \<open>JavaScript values shared by the modules\<close>

text \<open>
  Exceptions are values.  \<open>Error m\<close> is \<^verbatim>\<open>new Error(m)\<close>; \<open>SystemError c m\<close> is the
  error of a failed \<^verbatim>\<open>fs\<close> call, whose \<^verbatim>\<open>code\<close> property is \<open>c\<close> (\<^verbatim>\<open>'ENOENT'\<close>,
  \<^verbatim>\<open>'EACCES'\<close>, ...); \<open>SyntaxError\<close> is what \<^verbatim>\<open>JSON.parse\<close> throws and \<open>TypeError\<close>
  what a property read on \<^verbatim>\<open>null\<close> throws.  Only a \<open>SystemError\<close> has a \<^verbatim>\<open>code\<close>.
\<close>

datatype js_error =
    Error string
  | SystemError string string
  | SyntaxError string
  | TypeError string

fun error_code :: "js_error \<Rightarrow> string option" where
  "error_code (SystemError c m) = Some c"
| "error_code (Error m) = None"
| "error_code (SyntaxError m) = None"
| "error_code (TypeError m) = None"

fun error_message :: "js_error \<Rightarrow> string" where
  "error_message (Error m) = m"
| "error_message (SystemError c m) = m"
| "error_message (SyntaxError m) = m"
| "error_message (TypeError m) = m"

text \<open>
  A string that may be \<^verbatim>\<open>undefined\<close> is a \<open>string option\<close>.  In a condition and on the
  left of \<^verbatim>\<open>||\<close> JavaScript takes \<^verbatim>\<open>undefined\<close> and the empty string for false.
\<close>

fun truthy_string :: "string option \<Rightarrow> bool" where
  "truthy_string None = False"
| "truthy_string (Some s) = (s \<noteq> [])"

definition or_string :: "string option \<Rightarrow> string option \<Rightarrow> string option" where
  "or_string a b = (if truthy_string a then a else b)"

text \<open>The decimal numeral a template literal prints for a non-negative integer.\<close>

definition digit :: "nat \<Rightarrow> char" where
  "digit d = ''0123456789'' ! d"

fun decimal :: "nat \<Rightarrow> string" where
  "decimal n = (if n < 10 then [digit n] else decimal (n div 10) @ [digit (n mod 10)])"

declare decimal.simps [simp del]

text \<open>
  A JSON value, as \<^verbatim>\<open>JSON.parse\<close> returns it and as a request body carries it.  An
  object is the list of its members, looked up from the front; numbers are integers.
  \<open>None\<close> of type \<open>json option\<close> is \<^verbatim>\<open>undefined\<close>.
\<close>

datatype json =
    JNull
  | JBool bool
  | JNumber int
  | JString string
  | JArray "json list"
  | JObject "(string \<times> json) list"

section \<open>HTTP through axios\<close>

text \<open>
  A request is what \<^verbatim>\<open>axios.post(url, body, config)\<close> sends: the body is either
  \<^verbatim>\<open>new URLSearchParams(params)\<close>, the names and values in order, or a JSON object; \<open>timeout\<close>
  is the \<^verbatim>\<open>timeout\<close> of the configuration in milliseconds, if it has one.
  What the remote end does with a request: it answers with a status and a decoded body,
  or no answer arrives and the transport reports a message.  \<open>always out\<close> is the remote
  end that treats every request alike.  \<open>axios_post\<close> is the
  library's settling rule with its default \<^verbatim>\<open>validateStatus\<close>: the promise is fulfilled
  with the response for a status from 200 to 299 and rejected otherwise; the rejection
  carries the response when there is one.
\<close>

datatype payload =
    Form "(string \<times> string) list"
  | Json json

record http_request =
  url :: string
  body :: payload
  headers :: "(string \<times> string) list"
  timeout :: "nat option"

datatype 'd http_outcome =
    Reply nat 'd
  | NoReply string

record 'd axios_response =
  status :: nat
  data :: 'd

record 'd axios_error =
  response :: "'d axios_response option"
  message :: string


definition validateStatus :: "nat \<Rightarrow> bool" where
  "validateStatus st = (200 \<le> st \<and> st < 300)"

fun axios_post :: "'d http_outcome \<Rightarrow> 'd axios_error + 'd axios_response" where
  "axios_post (Reply st d) =
     (if validateStatus st then Inr \<lparr>status = st, data = d\<rparr>
      else Inl \<lparr>response = Some \<lparr>status = st, data = d\<rparr>,
                message = ''Request failed with status code '' @ decimal st\<rparr>)"
| "axios_post (NoReply m) = Inl \<lparr>response = None, message = m\<rparr>"

section \<open>Token exchange and refresh (tokenExchange.js)\<close>

text \<open>
  \<open>config\<close> is the object passed to \<^verbatim>\<open>exchangeCodeForTokens\<close>, \<open>token_response\<close> the
  body of the token endpoint's answer, \<open>tokens\<close> the record both functions return.  The
  body is an object; \<open>oauth_error\<close> is its member \<^verbatim>\<open>error\<close>, the code of an OAuth error
  payload (\<^verbatim>\<open>invalid_grant\<close>, ...), which neither function reads.  A member the provider
  left out is \<open>None\<close>; for \<open>expires_at\<close>, \<open>None\<close> is the \<^verbatim>\<open>NaN\<close>
  that \<^verbatim>\<open>Date.now() + undefined * 1000\<close> yields.  Times are integers, in milliseconds.
  \<^verbatim>\<open>Date.now()\<close> is the parameter \<open>now\<close>; the token endpoint is the parameter \<open>post\<close>.
\<close>

record config =
  accountId :: string
  clientId :: string
  redirectUri :: string

record token_response =
  access_token :: "string option"
  refresh_token :: "string option"
  expires_in :: "int option"
  oauth_error :: "string option"

record tokens =
  access_token :: "string option"
  refresh_token :: "string option"
  expires_in :: "int option"
  expires_at :: "int option"
  accountId :: string
  clientId :: string

definition tokenUrl :: "string \<Rightarrow> string" where
  "tokenUrl account =
     ''https://'' @ account @ ''.suitetalk.api.netsuite.com/services/rest/auth/oauth2/v1/token''"

definition form_header :: "(string \<times> string) list" where
  "form_header = [(''Content-Type'', ''application/x-www-form-urlencoded'')]"

definition expiry :: "int \<Rightarrow> int option \<Rightarrow> int option" where
  "expiry now ei = (case ei of None \<Rightarrow> None | Some n \<Rightarrow> Some (now + n * 1000))"




text \<open>
  In the form body an \<^verbatim>\<open>undefined\<close> refresh token is printed as the word \<^verbatim>\<open>undefined\<close>.
  The record may have members beyond the six named ones; the spread \<^verbatim>\<open>...tokens\<close> copies
  them all.
\<close>

definition refresh_request :: "'a tokens_scheme \<Rightarrow> http_request" where
  "refresh_request toks =
     \<lparr>url = tokenUrl (accountId toks),
      body = Form [(''grant_type'', ''refresh_token''),
                   (''refresh_token'',
                    case refresh_token toks of None \<Rightarrow> ''undefined'' | Some r \<Rightarrow> r),
                   (''client_id'', clientId toks)],
      headers = form_header,
      timeout = None\<rparr>"

definition refreshAccessToken ::
  "int \<Rightarrow> (http_request \<Rightarrow> token_response http_outcome) \<Rightarrow>
   'a tokens_scheme \<Rightarrow> js_error + 'a tokens_scheme" where
  "refreshAccessToken now post toks =
     (case axios_post (post (refresh_request toks)) of
        Inr resp \<Rightarrow>
          Inr (toks\<lparr>access_token := token_response.access_token (data resp),
                    refresh_token := or_string (token_response.refresh_token (data resp))
                                               (refresh_token toks),
                    expires_in := token_response.expires_in (data resp),
                    expires_at := expiry now (token_response.expires_in (data resp))\<rparr>)
      | Inl err \<Rightarrow>
          Inl (Error ''Failed to refresh access token. Please re-authenticate.''))"

definition fiveMinutes :: int where
  "fiveMinutes = 5 * 60 * 1000"

definition shouldRefreshToken :: "int \<Rightarrow> 'a tokens_scheme \<Rightarrow> bool" where
  "shouldRefreshToken now toks =
     (case expires_at toks of
        None \<Rightarrow> False
      | Some e \<Rightarrow> e - now < fiveMinutes)"

section \<open>Session storage (sessionStorage.js)\<close>

fun truthy :: "json option \<Rightarrow> bool" where
  "truthy None = False"
| "truthy (Some JNull) = False"
| "truthy (Some (JBool b)) = b"
| "truthy (Some (JNumber n)) = (n \<noteq> 0)"
| "truthy (Some (JString s)) = (s \<noteq> [])"
| "truthy (Some (JArray xs)) = True"
| "truthy (Some (JObject kvs)) = True"

text \<open>
  Reading the member \<open>k\<close> of a value, for a name that no prototype defines (the two names
  read here are \<^verbatim>\<open>authenticated\<close> and \<^verbatim>\<open>tokens\<close>): the member of an object, \<^verbatim>\<open>undefined\<close>
  on any other value, a \<open>TypeError\<close> on \<^verbatim>\<open>null\<close>.
\<close>

fun member :: "json \<Rightarrow> string \<Rightarrow> js_error + json option" where
  "member JNull k = Inl (TypeError (''Cannot read properties of null (reading '' @ k @ '')''))"
| "member (JObject kvs) k = Inr (map_of kvs k)"
| "member (JBool b) k = Inr None"
| "member (JNumber n) k = Inr None"
| "member (JString s) k = Inr None"
| "member (JArray xs) k = Inr None"

text \<open>
  The session file, as the two library calls of \<^verbatim>\<open>load\<close> see it.  \<^verbatim>\<open>fs.readFile\<close> fails
  with an error code (\<^verbatim>\<open>ENOENT\<close> when the file does not exist) or returns the text; the
  text either denotes a JSON value or is one that \<^verbatim>\<open>JSON.parse\<close> rejects.
\<close>

datatype file_text =
    Denotes json
  | Malformed

datatype session_file =
    Unreadable string
  | Holds file_text

fun readFile :: "session_file \<Rightarrow> js_error + file_text" where
  "readFile (Unreadable c) = Inl (SystemError c (c @ '': session.json''))"
| "readFile (Holds t) = Inr t"

fun JSON_parse :: "file_text \<Rightarrow> js_error + json" where
  "JSON_parse (Denotes v) = Inr v"
| "JSON_parse Malformed = Inl (SyntaxError ''Unexpected token in JSON'')"

definition load :: "session_file \<Rightarrow> js_error + json" where
  "load disk =
     (case (case readFile disk of Inl e \<Rightarrow> Inl e | Inr text \<Rightarrow> JSON_parse text) of
        Inr v \<Rightarrow> Inr v
      | Inl err \<Rightarrow> if error_code err = Some ''ENOENT'' then Inr JNull else Inl err)"

text \<open>
  \<^verbatim>\<open>!!(session && session.authenticated && session.tokens)\<close> inside \<^verbatim>\<open>try\<close>, and the
  \<^verbatim>\<open>catch\<close> that turns every exception into \<^verbatim>\<open>false\<close>.  The result type keeps the
  exceptional outcome, so that not raising is a property and not a convention.
\<close>

definition session_check :: "json \<Rightarrow> js_error + bool" where
  "session_check session =
     (if \<not> truthy (Some session) then Inr False
      else case member session ''authenticated'' of
             Inl e \<Rightarrow> Inl e
           | Inr a \<Rightarrow>
               if \<not> truthy a then Inr False
               else (case member session ''tokens'' of
                       Inl e \<Rightarrow> Inl e
                     | Inr t \<Rightarrow> Inr (truthy t)))"

definition isAuthenticated :: "session_file \<Rightarrow> js_error + bool" where
  "isAuthenticated disk =
     (case (case load disk of Inl e \<Rightarrow> Inl e | Inr session \<Rightarrow> session_check session) of
        Inr b \<Rightarrow> Inr b
      | Inl e \<Rightarrow> Inr False)"

text \<open>
  The session as the specification describes it, for comparison with \<open>session_check\<close>:
  marked authenticated, with an access token that is present and not empty.  The access
  token of a stored session is the member \<^verbatim>\<open>access_token\<close> of its member \<^verbatim>\<open>tokens\<close>.
\<close>

fun lookup :: "json option \<Rightarrow> string \<Rightarrow> json option" where
  "lookup (Some (JObject kvs)) k = map_of kvs k"
| "lookup v k = None"

fun nonempty_string :: "json option \<Rightarrow> bool" where
  "nonempty_string (Some (JString s)) = (s \<noteq> [])"
| "nonempty_string v = False"

definition spec_authenticated :: "session_file \<Rightarrow> bool" where
  "spec_authenticated disk =
     (case load disk of
        Inl e \<Rightarrow> False
      | Inr session \<Rightarrow>
          lookup (Some session) ''authenticated'' = Some (JBool True) \<and>
          nonempty_string (lookup (lookup (Some session) ''tokens'') ''access_token''))"

section \<open>Callback server (callbackServer.js)\<close>

text \<open>
  A promise is settled once; a later \<^verbatim>\<open>resolve\<close> or \<^verbatim>\<open>reject\<close> changes nothing.
\<close>

datatype promise =
    Pending
  | Fulfilled
  | Rejected js_error

fun resolve :: "promise \<Rightarrow> promise" where
  "resolve Pending = Fulfilled"
| "resolve p = p"

fun reject :: "promise \<Rightarrow> js_error \<Rightarrow> promise" where
  "reject Pending e = Rejected e"
| "reject p e = p"

text \<open>
  The object after \<^verbatim>\<open>start\<close>: \<open>server\<close> is \<^verbatim>\<open>this.server\<close> (\<open>None\<close> for \<^verbatim>\<open>null\<close>, else the
  port the listener is bound to), \<open>authPromise\<close> the promise that \<^verbatim>\<open>start\<close> returned and
  that \<^verbatim>\<open>authPromiseResolve\<close> and \<^verbatim>\<open>authPromiseReject\<close> settle, \<open>timers\<close> the delays of
  the shutdown timers that \<^verbatim>\<open>setTimeout\<close> has scheduled and that have not fired.
\<close>

record callback_server =
  port :: nat
  server :: "nat option"
  authPromise :: promise
  timers :: "nat list"

text \<open>
  A request is its path and its query parameters in order; \<^verbatim>\<open>searchParams.get\<close> returns
  the first value of a name, or \<^verbatim>\<open>null\<close>.  A page is what \<^verbatim>\<open>res.writeHead\<close> and
  \<^verbatim>\<open>res.end\<close> sent: the status, the title and the message.
\<close>

record request =
  pathname :: string
  searchParams :: "(string \<times> string) list"

record page =
  statusCode :: nat
  title :: string
  detail :: string

fun includes_str :: "string \<Rightarrow> string \<Rightarrow> bool" where
  "includes_str [] t = (t = [])"
| "includes_str (c # cs) t = (take (length t) (c # cs) = t \<or> includes_str cs t)"

definition sendSuccessPage :: page where
  "sendSuccessPage =
     \<lparr>statusCode = 200, title = ''Authentication Successful'',
      detail = ''You can close this window and return to your IDE.''\<rparr>"

definition sendErrorPage :: "string \<Rightarrow> string \<Rightarrow> page" where
  "sendErrorPage ttl msg =
     \<lparr>statusCode = (if includes_str ttl ''Invalid'' then 400 else 500), title = ttl, detail = msg\<rparr>"

definition close :: "callback_server \<Rightarrow> callback_server" where
  "close srv = (case server srv of None \<Rightarrow> srv | Some p \<Rightarrow> srv\<lparr>server := None\<rparr>)"

text \<open>
  What the three-second timer of the success path runs when it fires: \<^verbatim>\<open>this.close()\<close>,
  then \<^verbatim>\<open>this.authPromiseResolve()\<close>.
\<close>

definition shutdown :: "callback_server \<Rightarrow> callback_server" where
  "shutdown srv = (close srv)\<lparr>authPromise := resolve (authPromise srv), timers := tl (timers srv)\<rparr>"

text \<open>
  \<open>handleRequest req expectedState onCodeReceived (srv, w)\<close>.  The code handler is a
  parameter: it takes the \<^verbatim>\<open>code\<close> parameter of the request (\<open>None\<close> for \<^verbatim>\<open>null\<close>) and
  acts on \<open>w\<close>, which stands for everything outside the server object that a handler can
  change (the requests sent to the token endpoint, the session file); it returns or
  throws.  The result is the server object, the page sent (\<open>None\<close> when the request is
  left unanswered), the codes handed to the handler, and the new \<open>w\<close>.
\<close>

definition handleRequest ::
  "request \<Rightarrow> string \<Rightarrow> (string option \<Rightarrow> 'w \<Rightarrow> (js_error + unit) \<times> 'w) \<Rightarrow>
   callback_server \<times> 'w \<Rightarrow> callback_server \<times> page option \<times> string option list \<times> 'w" where
  "handleRequest req expectedState onCodeReceived sw =
     (case sw of (srv, w) \<Rightarrow>
      if pathname req \<noteq> ''/callback'' then (srv, None, [], w)
      else
        let code = map_of (searchParams req) ''code'';
            state = map_of (searchParams req) ''state'';
            error = map_of (searchParams req) ''error''
        in if truthy_string error then
             (let e = (case error of None \<Rightarrow> [] | Some m \<Rightarrow> m)
              in ((close srv)\<lparr>authPromise := reject (authPromise srv) (Error e)\<rparr>,
                  Some (sendErrorPage ''Authentication Failed'' e), [], w))
           else if state \<noteq> Some expectedState then
             ((close srv)\<lparr>authPromise := reject (authPromise srv)
                                             (Error ''Invalid state parameter'')\<rparr>,
              Some (sendErrorPage ''Invalid State'' ''CSRF validation failed. Please try again.''),
              [], w)
           else
             (case onCodeReceived code w of
                (Inr u, w') \<Rightarrow>
                  (srv\<lparr>timers := timers srv @ [3000]\<rparr>, Some sendSuccessPage, [code], w')
              | (Inl err, w') \<Rightarrow>
                  ((close srv)\<lparr>authPromise := reject (authPromise srv) err\<rparr>,
                   Some (sendErrorPage ''Token Exchange Failed'' (error_message err)),
                   [code], w')))"

section \<open>Tools cache (tools.js)\<close>

text \<open>
  The two fields of \<^verbatim>\<open>NetSuiteMCPTools\<close> that \<^verbatim>\<open>fetchTools\<close> reads and writes; \<open>None\<close> is
  \<^verbatim>\<open>null\<close>.  The body of a JSON-RPC answer is an object: \<open>rpc_error\<close> is \<open>None\<close> when it
  has no \<^verbatim>\<open>error\<close> member (or a false one) and else holds the error's \<^verbatim>\<open>message\<close>, if
  any; \<open>result_tools\<close> is the array \<^verbatim>\<open>result.tools\<close>, if any.
\<close>

record 't mcp_tools =
  toolsCache :: "'t list option"
  lastToolsFetch :: "int option"

definition toolsCacheTTL :: int where
  "toolsCacheTTL = 5 * 60 * 1000"

record 't rpc_response =
  rpc_error :: "string option option"
  result_tools :: "'t list option"

definition mcp_endpoint :: "string \<Rightarrow> string" where
  "mcp_endpoint account =
     ''https://'' @ account @ ''.suitetalk.api.netsuite.com/services/mcp/v1/all''"

definition getMCPEndpoint :: "js_error + string option \<Rightarrow> js_error + string" where
  "getMCPEndpoint getAccountId =
     (case getAccountId of
        Inl e \<Rightarrow> Inl e
      | Inr acct \<Rightarrow>
          if truthy_string acct
          then Inr (mcp_endpoint (case acct of None \<Rightarrow> [] | Some a \<Rightarrow> a))
          else Inl (Error ''Account ID not found. Please authenticate first.''))"

text \<open>The \<^verbatim>\<open>catch\<close> block of \<^verbatim>\<open>fetchTools\<close>, on the status of \<^verbatim>\<open>error.response\<close> (if any)
  and \<^verbatim>\<open>error.message\<close>.\<close>

definition fetch_failure :: "nat option \<Rightarrow> string \<Rightarrow> js_error" where
  "fetch_failure st msg =
     (if st = Some 401 then Error ''NetSuite authentication failed. Please re-authenticate.''
      else Error (''Failed to fetch tools: '' @ msg))"

text \<open>
  The environment of one call: \<open>now1\<close> is \<^verbatim>\<open>Date.now()\<close> at the freshness test and
  \<open>now2\<close> at the store; \<open>ensureValidToken\<close> and \<open>getAccountId\<close> are the outcomes of the two manager
  calls; \<open>requestId\<close> is what \<^verbatim>\<open>generateRequestId\<close> returns; \<open>remote\<close> is the endpoint the request is posted to.
\<close>

record 't fetch_env =
  now1 :: int
  now2 :: int
  ensureValidToken :: "js_error + string"
  getAccountId :: "js_error + string option"
  requestId :: string
  remote :: "http_request \<Rightarrow> 't rpc_response http_outcome"

definition cached :: "int \<Rightarrow> 't mcp_tools \<Rightarrow> 't list option" where
  "cached t s =
     (case (toolsCache s, lastToolsFetch s) of
        (Some ts, Some fetched) \<Rightarrow>
          if fetched \<noteq> 0 \<and> t - fetched < toolsCacheTTL then Some ts else None
      | _ \<Rightarrow> None)"

definition list_request :: "string \<Rightarrow> string \<Rightarrow> string \<Rightarrow> http_request" where
  "list_request endpoint accessToken rid =
     \<lparr>url = endpoint,
      body = Json (JObject [(''jsonrpc'', JString ''2.0''),
                            (''id'', JString rid),
                            (''method'', JString ''tools/list''),
                            (''params'', JObject [])]),
      headers = [(''Authorization'', ''Bearer '' @ accessToken),
                 (''Content-Type'', ''application/json'')],
      timeout = Some 30000\<rparr>"

text \<open>
  The result is what the call returns or throws, the object afterwards and the requests
  the call has posted.
\<close>

definition fetchTools ::
  "'t fetch_env \<Rightarrow> 't mcp_tools \<Rightarrow> (js_error + 't list) \<times> 't mcp_tools \<times> http_request list" where
  "fetchTools env s =
     (case cached (now1 env) s of
        Some ts \<Rightarrow> (Inr ts, s, [])
      | None \<Rightarrow>
          (case ensureValidToken env of
             Inl e \<Rightarrow> (Inl e, s, [])
           | Inr accessToken \<Rightarrow>
               (case getMCPEndpoint (getAccountId env) of
                  Inl e \<Rightarrow> (Inl e, s, [])
                | Inr endpoint \<Rightarrow>
                    (let req = list_request endpoint accessToken (requestId env)
                     in case axios_post (remote env req) of
                          Inl err \<Rightarrow>
                            (Inl (fetch_failure (map_option status (response err)) (message err)),
                             s, [req])
                        | Inr resp \<Rightarrow>
                            (case rpc_error (data resp) of
                               Some m \<Rightarrow>
                                 (Inl (fetch_failure None
                                         (case or_string m (Some ''Failed to fetch tools'') of
                                            None \<Rightarrow> [] | Some x \<Rightarrow> x)),
                                  s, [req])
                             | None \<Rightarrow>
                                 (case result_tools (data resp) of
                                    Some ts \<Rightarrow>
                                      (Inr ts,
                                       s\<lparr>toolsCache := Some ts,
                                         lastToolsFetch := Some (now2 env)\<rparr>,
                                       [req])
                                  | None \<Rightarrow> (Inr [], s, [req])))))))"

section \<open>PKCE (pkce.js)\<close>

text \<open>
  \<^verbatim>\<open>Buffer.toString('base64')\<close> is the base 64 encoding of RFC 4648: three bytes are
  four groups of six bits, each printed with the character at its index in the
  alphabet; a last group of one or two bytes is filled with zero bits and \<^verbatim>\<open>=\<close> signs.
\<close>

type_synonym byte = "8 word"
type_synonym sextet = "6 word"

definition alphabet :: string where
  "alphabet = ''ABCDEFGHIJKLMNOPQRSTUVWXYZabcdefghijklmnopqrstuvwxyz0123456789+/''"

definition b64_char :: "sextet \<Rightarrow> char" where
  "b64_char w = alphabet ! unat w"

definition sextet0 :: "byte \<Rightarrow> sextet" where
  "sextet0 a = ucast (drop_bit 2 a)"

definition sextet1 :: "byte \<Rightarrow> byte \<Rightarrow> sextet" where
  "sextet1 a b = push_bit 4 (ucast (a AND 3)) OR ucast (drop_bit 4 b)"

definition sextet2 :: "byte \<Rightarrow> byte \<Rightarrow> sextet" where
  "sextet2 b c = push_bit 2 (ucast (b AND 15)) OR ucast (drop_bit 6 c)"

definition sextet3 :: "byte \<Rightarrow> sextet" where
  "sextet3 c = ucast (c AND 63)"

fun base64 :: "byte list \<Rightarrow> string" where
  "base64 (a # b # c # rest) =
     b64_char (sextet0 a) # b64_char (sextet1 a b) # b64_char (sextet2 b c) #
     b64_char (sextet3 c) # base64 rest"
| "base64 [a, b] =
     [b64_char (sextet0 a), b64_char (sextet1 a b), b64_char (sextet2 b 0), CHR ''='']"
| "base64 [a] =
     [b64_char (sextet0 a), b64_char (sextet1 a 0), CHR ''='', CHR ''='']"
| "base64 [] = []"

text \<open>\<^verbatim>\<open>s.replace(/c/g, r)\<close> for a single character \<open>c\<close>.\<close>

definition replace :: "char \<Rightarrow> string \<Rightarrow> string \<Rightarrow> string" where
  "replace c r s = concat (map (\<lambda>x. if x = c then r else [x]) s)"

definition base64URLEncode :: "byte list \<Rightarrow> string" where
  "base64URLEncode buffer =
     replace CHR ''='' [] (replace CHR ''/'' ''_'' (replace CHR ''+'' ''-'' (base64 buffer)))"

text \<open>
  \<^verbatim>\<open>crypto.randomBytes(n)\<close> takes the next \<open>n\<close> bytes of the entropy source.  The hash
  \<^verbatim>\<open>crypto.createHash('sha256')\<close> is the parameter \<open>sha256\<close>; \<^verbatim>\<open>update\<close> called with a string
  hashes its characters as bytes.
\<close>

definition randomBytes :: "nat \<Rightarrow> byte stream \<Rightarrow> byte list \<times> byte stream" where
  "randomBytes n entropy = (stake n entropy, sdrop n entropy)"

definition string_bytes :: "string \<Rightarrow> byte list" where
  "string_bytes s = map of_char s"

record pkce =
  code_verifier :: string
  code_challenge :: string
  code_challenge_method :: string

definition generatePKCE :: "(byte list \<Rightarrow> byte list) \<Rightarrow> byte stream \<Rightarrow> pkce \<times> byte stream" where
  "generatePKCE sha256 entropy =
     (case randomBytes 32 entropy of
        (random, entropy') \<Rightarrow>
          let verifier = base64URLEncode random;
              challenge = base64URLEncode (sha256 (string_bytes verifier))
          in (\<lparr>code_verifier = verifier, code_challenge = challenge,
               code_challenge_method = ''S256''\<rparr>, entropy'))"

subsection \<open>The encoding and its decoding as the specification words them\<close>

text \<open>
  The URL-safe encoding without padding, written directly: the alphabet of RFC 4648
  section 5, and nothing printed for a missing group.
\<close>

definition url_alphabet :: string where
  "url_alphabet = ''ABCDEFGHIJKLMNOPQRSTUVWXYZabcdefghijklmnopqrstuvwxyz0123456789-_''"

definition url_char :: "sextet \<Rightarrow> char" where
  "url_char w = url_alphabet ! unat w"

fun base64url_nopad :: "byte list \<Rightarrow> string" where
  "base64url_nopad (a # b # c # rest) =
     url_char (sextet0 a) # url_char (sextet1 a b) # url_char (sextet2 b c) #
     url_char (sextet3 c) # base64url_nopad rest"
| "base64url_nopad [a, b] = [url_char (sextet0 a), url_char (sextet1 a b), url_char (sextet2 b 0)]"
| "base64url_nopad [a] = [url_char (sextet0 a), url_char (sextet1 a 0)]"
| "base64url_nopad [] = []"

text \<open>
  Decoding: \<^verbatim>\<open>-\<close> back to \<^verbatim>\<open>+\<close> and \<^verbatim>\<open>_\<close> back to \<^verbatim>\<open>/\<close>, the padding restored up to a
  multiple of four characters, then base 64 decoded group by group.  A character outside
  the alphabet, or a length that no encoding has, gives \<open>None\<close>.
\<close>

fun index_of :: "char \<Rightarrow> string \<Rightarrow> nat option" where
  "index_of c [] = None"
| "index_of c (x # xs) = (if x = c then Some 0 else map_option Suc (index_of c xs))"

definition b64_value :: "char \<Rightarrow> sextet option" where
  "b64_value c = map_option of_nat (index_of c alphabet)"

definition byte0 :: "sextet \<Rightarrow> sextet \<Rightarrow> byte" where
  "byte0 s0 s1 = push_bit 2 (ucast s0) OR ucast (drop_bit 4 s1)"

definition byte1 :: "sextet \<Rightarrow> sextet \<Rightarrow> byte" where
  "byte1 s1 s2 = push_bit 4 (ucast s1) OR ucast (drop_bit 2 s2)"

definition byte2 :: "sextet \<Rightarrow> sextet \<Rightarrow> byte" where
  "byte2 s2 s3 = push_bit 6 (ucast s2) OR ucast s3"

fun base64_decode :: "string \<Rightarrow> byte list option" where
  "base64_decode (c0 # c1 # c2 # c3 # rest) =
     (case (b64_value c0, b64_value c1) of
        (Some s0, Some s1) \<Rightarrow>
          if rest = [] \<and> c2 = CHR ''='' \<and> c3 = CHR ''='' then Some [byte0 s0 s1]
          else (case b64_value c2 of
                  None \<Rightarrow> None
                | Some s2 \<Rightarrow>
                    if rest = [] \<and> c3 = CHR ''='' then Some [byte0 s0 s1, byte1 s1 s2]
                    else (case (b64_value c3, base64_decode rest) of
                            (Some s3, Some bs) \<Rightarrow>
                              Some (byte0 s0 s1 # byte1 s1 s2 # byte2 s2 s3 # bs)
                          | _ \<Rightarrow> None))
      | _ \<Rightarrow> None)"
| "base64_decode [] = Some []"
| "base64_decode cs = None"

definition restore_padding :: "string \<Rightarrow> string" where
  "restore_padding s = s @ replicate ((4 - length s mod 4) mod 4) CHR ''=''"

definition from_url :: "char \<Rightarrow> char" where
  "from_url c = (if c = CHR ''-'' then CHR ''+'' else if c = CHR ''_'' then CHR ''/'' else c)"

definition base64url_decode :: "string \<Rightarrow> byte list option" where
  "base64url_decode s = base64_decode (restore_padding (map from_url s))"

subsection \<open>Auxiliary notions for the statements\<close>

text \<open>The three replacements of \<open>base64URLEncode\<close> as one function on strings.\<close>

definition url_safe :: "string \<Rightarrow> string" where
  "url_safe s = replace CHR ''='' [] (replace CHR ''/'' ''_'' (replace CHR ''+'' ''-'' s))"

text \<open>
  The remote listing call fails when axios rejects it or when the answer carries a
  JSON-RPC \<^verbatim>\<open>error\<close> member: both end in the \<^verbatim>\<open>catch\<close> block of \<^verbatim>\<open>fetchTools\<close>.
\<close>

definition listing_fails :: "'t rpc_response http_outcome \<Rightarrow> bool" where
  "listing_fails out =
     (case axios_post out of Inl err \<Rightarrow> True | Inr resp \<Rightarrow> rpc_error (data resp) \<noteq> None)"

section \<open>Token service: properties\<close>



lemma decimal_500: "decimal 500 = ''500''"
  by (simp add: decimal.simps digit_def)

text \<open>
  C3.  For a token record whose \<open>expires_at\<close> is the timestamp \<open>e\<close> and for every current
  time \<open>now\<close>, \<open>shouldRefreshToken\<close> is true if and only if \<open>e - now\<close> is strictly less
  than 300000 milliseconds; when the difference is exactly 300000 it is false.
\<close>

theorem shouldRefreshToken_iff:
  assumes "expires_at toks = Some e"
  shows "shouldRefreshToken now toks = (e - now < 300000) \<and>
         (e - now = 300000 \<longrightarrow> \<not> shouldRefreshToken now toks)"
  using assms by (simp add: shouldRefreshToken_def fiveMinutes_def)

theorem shouldRefreshToken_iff_witness:
  "expires_at \<lparr>tokens.access_token = Some ''AT'', refresh_token = Some ''RT'', expires_in = Some 3600,
      expires_at = Some 1300000, accountId = ''123-sb1'', clientId = ''cid''\<rparr> = Some 1300000 \<and>
   (1300000 - 1000000 = (300000::int)) \<and>
   \<not> shouldRefreshToken 1000000 \<lparr>tokens.access_token = Some ''AT'', refresh_token = Some ''RT'',
      expires_in = Some 3600, expires_at = Some 1300000, accountId = ''123-sb1'', clientId = ''cid''\<rparr> \<and>
   shouldRefreshToken 1000001 \<lparr>tokens.access_token = Some ''AT'', refresh_token = Some ''RT'',
      expires_in = Some 3600, expires_at = Some 1300000, accountId = ''123-sb1'', clientId = ''cid''\<rparr>"
  using shouldRefreshToken_iff [of "\<lparr>tokens.access_token = Some ''AT'', refresh_token = Some ''RT'',
      expires_in = Some 3600, expires_at = Some 1300000, accountId = ''123-sb1'', clientId = ''cid''\<rparr>"
      1300000 1000000]
    shouldRefreshToken_iff [of "\<lparr>tokens.access_token = Some ''AT'', refresh_token = Some ''RT'',
      expires_in = Some 3600, expires_at = Some 1300000, accountId = ''123-sb1'', clientId = ''cid''\<rparr>"
      1300000 1000001]
  by simp




text \<open>
  C5.  When \<open>refreshAccessToken\<close> succeeds, the token endpoint has answered with a status
  from 200 to 299, and the new record's \<open>refresh_token\<close> is the one of the answer when the
  answer has a non-empty one and the old record's otherwise.  \<open>accountId\<close>, \<open>clientId\<close> and
  every member beyond the six named ones are those of the old record: the new record is
  the old one with \<open>access_token\<close>, \<open>refresh_token\<close>, \<open>expires_in\<close> and \<open>expires_at\<close>
  replaced.
\<close>

theorem refreshAccessToken_frame:
  assumes "refreshAccessToken now post toks = Inr new"
  shows "\<exists>st d. post (refresh_request toks) = Reply st d \<and> 200 \<le> st \<and> st < 300 \<and>
           refresh_token new =
             (case token_response.refresh_token d of
                None \<Rightarrow> refresh_token toks
              | Some r \<Rightarrow> if r = [] then refresh_token toks else Some r) \<and>
           accountId new = accountId toks \<and> clientId new = clientId toks \<and>
           tokens.more new = tokens.more toks \<and>
           new = toks\<lparr>access_token := access_token new, refresh_token := refresh_token new,
                      expires_in := expires_in new, expires_at := expires_at new\<rparr>"
proof (cases "post (refresh_request toks)")
  case (Reply st d)
  with assms show ?thesis
    by (auto simp: refreshAccessToken_def validateStatus_def or_string_def
             split: if_splits option.splits)
next
  case (NoReply m)
  with assms show ?thesis by (simp add: refreshAccessToken_def)
qed

theorem refreshAccessToken_frame_witness:
  "refreshAccessToken 5000 (\<lambda>r. Reply 200 \<lparr>token_response.access_token = Some ''AT2'',
        refresh_token = None, expires_in = Some 3600, oauth_error = None\<rparr>)
      \<lparr>tokens.access_token = Some ''AT1'', refresh_token = Some ''RT1'', expires_in = Some 3600,
       expires_at = Some 3601000, accountId = ''123-sb1'', clientId = ''cid''\<rparr> =
    Inr \<lparr>tokens.access_token = Some ''AT2'', refresh_token = Some ''RT1'', expires_in = Some 3600,
         expires_at = Some 3605000, accountId = ''123-sb1'', clientId = ''cid''\<rparr> \<and>
   refresh_token \<lparr>tokens.access_token = Some ''AT2'', refresh_token = Some ''RT1'',
         expires_in = Some 3600, expires_at = Some 3605000, accountId = ''123-sb1'',
         clientId = ''cid''\<rparr> = Some ''RT1'' \<and>
   accountId \<lparr>tokens.access_token = Some ''AT2'', refresh_token = Some ''RT1'',
         expires_in = Some 3600, expires_at = Some 3605000, accountId = ''123-sb1'',
         clientId = ''cid''\<rparr> = ''123-sb1''"
proof -
  let ?post = "\<lambda>r::http_request. Reply 200 \<lparr>token_response.access_token = Some ''AT2'',
        refresh_token = None, expires_in = Some 3600, oauth_error = None\<rparr>"
  let ?toks = "\<lparr>tokens.access_token = Some ''AT1'', refresh_token = Some ''RT1'',
       expires_in = Some 3600, expires_at = Some 3601000, accountId = ''123-sb1'',
       clientId = ''cid''\<rparr>"
  let ?new = "\<lparr>tokens.access_token = Some ''AT2'', refresh_token = Some ''RT1'',
       expires_in = Some 3600, expires_at = Some 3605000, accountId = ''123-sb1'',
       clientId = ''cid''\<rparr>"
  have run: "refreshAccessToken 5000 ?post ?toks = Inr ?new"
    by (simp add: refreshAccessToken_def validateStatus_def or_string_def expiry_def)
  from refreshAccessToken_frame [OF run] run show ?thesis by simp
qed

text \<open>A newly issued refresh token replaces the old one; the other members stay.\<close>

lemma refreshAccessToken_rotates:
  "refreshAccessToken 5000 (\<lambda>r. Reply 200 \<lparr>token_response.access_token = Some ''AT2'',
        refresh_token = Some ''RT2'', expires_in = Some 3600, oauth_error = None\<rparr>)
      \<lparr>tokens.access_token = Some ''AT1'', refresh_token = Some ''RT1'', expires_in = Some 3600,
       expires_at = Some 3601000, accountId = ''123-sb1'', clientId = ''cid''\<rparr> =
    Inr \<lparr>tokens.access_token = Some ''AT2'', refresh_token = Some ''RT2'', expires_in = Some 3600,
         expires_at = Some 3605000, accountId = ''123-sb1'', clientId = ''cid''\<rparr>"
  by (simp add: refreshAccessToken_def validateStatus_def or_string_def expiry_def)

section \<open>Session storage: properties\<close>

lemma session_check_eq:
  "session_check session =
     Inr (truthy (Some session) \<and> truthy (lookup (Some session) ''authenticated'') \<and>
          truthy (lookup (Some session) ''tokens''))"
  by (cases session) (simp_all add: session_check_def)

lemma load_cases:
  "load (Unreadable c) =
     (if c = ''ENOENT'' then Inr JNull else Inl (SystemError c (c @ '': session.json'')))"
  "load (Holds Malformed) = Inl (SyntaxError ''Unexpected token in JSON'')"
  "load (Holds (Denotes v)) = Inr v"
  by (simp_all add: load_def)

text \<open>
  C6, as the specification states it, fails: a session marked authenticated whose
  \<^verbatim>\<open>tokens\<close> member is an object without any access token is reported authenticated.
\<close>

theorem isAuthenticated_tokens_counterexample:
  "isAuthenticated (Holds (Denotes (JObject [(''authenticated'', JBool True),
                                             (''tokens'', JObject [])]))) = Inr True \<and>
   \<not> spec_authenticated (Holds (Denotes (JObject [(''authenticated'', JBool True),
                                                  (''tokens'', JObject [])])))"
  by (simp add: isAuthenticated_def spec_authenticated_def load_def session_check_def)

text \<open>
  C6, amended.  \<open>isAuthenticated\<close> returns true if and only if the session loads, is not
  \<^verbatim>\<open>null\<close> or another false value, and its members \<^verbatim>\<open>authenticated\<close> and \<^verbatim>\<open>tokens\<close> are
  both present and true in a condition.  Nothing inside \<^verbatim>\<open>tokens\<close> is read: a session
  marked authenticated is reported so whatever the members of its \<^verbatim>\<open>tokens\<close> object,
  an expiry time in the past included.
\<close>

theorem isAuthenticated_verdict:
  "isAuthenticated disk =
     Inr (case load disk of
            Inl e \<Rightarrow> False
          | Inr session \<Rightarrow>
              truthy (Some session) \<and> truthy (lookup (Some session) ''authenticated'') \<and>
              truthy (lookup (Some session) ''tokens'')) \<and>
   isAuthenticated (Holds (Denotes (JObject [(''authenticated'', JBool True),
                                             (''tokens'', JObject members)]))) = Inr True"
  by (simp add: isAuthenticated_def session_check_eq load_cases split: sum.splits)

theorem isAuthenticated_verdict_witness:
  "isAuthenticated (Holds (Denotes (JObject [(''authenticated'', JBool True),
      (''tokens'', JObject [(''access_token'', JString ''AT1''),
                            (''expires_at'', JNumber 0)])]))) = Inr True \<and>
   isAuthenticated (Holds (Denotes (JObject [(''authenticated'', JBool True)]))) = Inr False \<and>
   isAuthenticated (Unreadable ''ENOENT'') = Inr False"
  by (simp add: isAuthenticated_verdict load_cases)

text \<open>
  C7, as the specification states it, fails in one direction: \<open>load\<close> also returns
  \<^verbatim>\<open>null\<close> for a file that exists and whose text is the JSON literal \<^verbatim>\<open>null\<close>.
\<close>

theorem load_null_counterexample:
  "load (Holds (Denotes JNull)) = Inr JNull \<and> Holds (Denotes JNull) \<noteq> Unreadable ''ENOENT''"
  by (simp add: load_def)

text \<open>
  C7, amended.  \<open>load\<close> returns \<^verbatim>\<open>null\<close> exactly when the session file does not exist
  (\<^verbatim>\<open>ENOENT\<close>) or its text is the JSON literal \<^verbatim>\<open>null\<close>.  No failure but \<^verbatim>\<open>ENOENT\<close> is
  turned into \<^verbatim>\<open>null\<close>: a read that fails with another code raises that error, and a
  text that is not JSON raises the syntax error.
\<close>

theorem load_absent:
  "(load disk = Inr JNull) = (disk = Unreadable ''ENOENT'' \<or> disk = Holds (Denotes JNull)) \<and>
   load (Unreadable c) =
     (if c = ''ENOENT'' then Inr JNull else Inl (SystemError c (c @ '': session.json''))) \<and>
   load (Holds Malformed) = Inl (SyntaxError ''Unexpected token in JSON'')"
proof -
  have "(load disk = Inr JNull) = (disk = Unreadable ''ENOENT'' \<or> disk = Holds (Denotes JNull))"
  proof (cases disk)
    case (Unreadable c)
    then show ?thesis by (simp add: load_cases)
  next
    case (Holds t)
    then show ?thesis by (cases t) (simp_all add: load_cases)
  qed
  then show ?thesis by (simp add: load_cases)
qed

theorem load_absent_witness:
  "load (Unreadable ''ENOENT'') = Inr JNull \<and>
   load (Unreadable ''EACCES'') = Inl (SystemError ''EACCES'' ''EACCES: session.json'') \<and>
   load (Holds Malformed) = Inl (SyntaxError ''Unexpected token in JSON'')"
  using load_absent [of "Unreadable ''ENOENT''" "''EACCES''"] by simp

text \<open>
  C10.  \<open>isAuthenticated\<close> never raises: in every state of the session file it returns a
  boolean, and whenever \<open>load\<close> fails (a text that is not JSON, a read error other than
  \<^verbatim>\<open>ENOENT\<close>) it returns false.
\<close>

theorem isAuthenticated_never_raises:
  "(\<exists>b. isAuthenticated disk = Inr b) \<and>
   (load disk = Inl e \<longrightarrow> isAuthenticated disk = Inr False)"
  by (auto simp: isAuthenticated_def split: sum.splits)

theorem isAuthenticated_never_raises_witness:
  "load (Holds Malformed) = Inl (SyntaxError ''Unexpected token in JSON'') \<and>
   isAuthenticated (Holds Malformed) = Inr False"
  using isAuthenticated_never_raises
    [of "Holds Malformed" "SyntaxError ''Unexpected token in JSON''"]
  by (simp add: load_def)

section \<open>Callback server: properties\<close>

lemma server_close [simp]: "server (close srv) = None"
  by (simp add: close_def split: option.splits)

lemma authPromise_close [simp]: "authPromise (close srv) = authPromise srv"
  by (simp add: close_def split: option.splits)

text \<open>
  C1.  Let the \<^verbatim>\<open>state\<close> parameter of a request differ from \<open>expectedState\<close> (or be
  missing).  Then the code handler is not invoked: no code is handed to it, what it could
  change is unchanged, and the outcome is the same with any other handler in its place.
  If the request is for \<^verbatim>\<open>/callback\<close>, a failure page (status 400 or 500) is sent, the
  server is closed and the promise of \<^verbatim>\<open>start\<close> is rejected.
\<close>

theorem handleRequest_state_mismatch:
  assumes "map_of (searchParams req) ''state'' \<noteq> Some expectedState"
  shows "handleRequest req expectedState onCodeReceived (srv, w) =
           handleRequest req expectedState other (srv, w) \<and>
         (case handleRequest req expectedState onCodeReceived (srv, w) of
            (srv', pg, handed, w') \<Rightarrow>
              handed = [] \<and> w' = w \<and>
              (pathname req = ''/callback'' \<longrightarrow>
                 (\<exists>p. pg = Some p \<and> (statusCode p = 400 \<or> statusCode p = 500)) \<and>
                 server srv' = None \<and>
                 (\<exists>e. authPromise srv' = reject (authPromise srv) e)))"
  using assms
  by (auto simp: handleRequest_def Let_def sendErrorPage_def)

theorem handleRequest_state_mismatch_witness:
  "map_of (searchParams \<lparr>pathname = ''/callback'',
             searchParams = [(''code'', ''abc''), (''state'', ''wrong'')]\<rparr>) ''state'' \<noteq>
     Some ''s3cr3t'' \<and>
   handleRequest \<lparr>pathname = ''/callback'',
                   searchParams = [(''code'', ''abc''), (''state'', ''wrong'')]\<rparr>
       ''s3cr3t'' (\<lambda>c n. (Inr (), Suc n))
       (\<lparr>port = 8080, server = Some 8080, authPromise = Pending, timers = []\<rparr>, 0::nat) =
     (\<lparr>port = 8080, server = None, authPromise = Rejected (Error ''Invalid state parameter''),
       timers = []\<rparr>,
      Some \<lparr>statusCode = 400, title = ''Invalid State'',
            detail = ''CSRF validation failed. Please try again.''\<rparr>,
      [], 0)"
proof -
  let ?req = "\<lparr>pathname = ''/callback'',
               searchParams = [(''code'', ''abc''), (''state'', ''wrong'')]\<rparr>"
  have h: "map_of (searchParams ?req) ''state'' \<noteq> Some ''s3cr3t''" by simp
  have run: "handleRequest ?req ''s3cr3t'' (\<lambda>c n. (Inr (), Suc n))
       (\<lparr>port = 8080, server = Some 8080, authPromise = Pending, timers = []\<rparr>, 0::nat) =
     (\<lparr>port = 8080, server = None, authPromise = Rejected (Error ''Invalid state parameter''),
       timers = []\<rparr>,
      Some \<lparr>statusCode = 400, title = ''Invalid State'',
            detail = ''CSRF validation failed. Please try again.''\<rparr>,
      [], 0)"
    by (simp add: handleRequest_def Let_def sendErrorPage_def close_def)
  from handleRequest_state_mismatch [OF h, where onCodeReceived = "\<lambda>c n. (Inr (), Suc n)"
      and other = "\<lambda>c n. (Inr (), Suc n)"
      and srv = "\<lparr>port = 8080, server = Some 8080, authPromise = Pending, timers = []\<rparr>"
      and w = "0::nat"] h run
  show ?thesis by simp
qed

text \<open>
  For comparison, the same request with the expected state: the handler receives the
  code, the success page is sent and the shutdown is scheduled.
\<close>

lemma handleRequest_match_example:
  "handleRequest \<lparr>pathname = ''/callback'',
                   searchParams = [(''code'', ''abc''), (''state'', ''s3cr3t'')]\<rparr>
       ''s3cr3t'' (\<lambda>c n. (Inr (), Suc n))
       (\<lparr>port = 8080, server = Some 8080, authPromise = Pending, timers = []\<rparr>, 0::nat) =
     (\<lparr>port = 8080, server = Some 8080, authPromise = Pending, timers = [3000]\<rparr>,
      Some sendSuccessPage, [Some ''abc''], 1)"
  by (simp add: handleRequest_def Let_def)

text \<open>When the timer then fires, the server is closed and the promise is fulfilled.\<close>

lemma shutdown_after_success:
  "shutdown \<lparr>port = 8080, server = Some 8080, authPromise = Pending, timers = [3000]\<rparr> =
     \<lparr>port = 8080, server = None, authPromise = Fulfilled, timers = []\<rparr>"
  by (simp add: shutdown_def close_def)

section \<open>Tools cache: properties\<close>

lemma cached_SomeD:
  "cached t s = Some ts \<Longrightarrow>
     toolsCache s = Some ts \<and> (\<exists>f. lastToolsFetch s = Some f \<and> t - f < toolsCacheTTL)"
  by (auto simp: cached_def split: option.splits if_splits)

text \<open>The ways a call of \<open>fetchTools\<close> can end.\<close>

lemma fetchTools_cases:
  assumes "fetchTools env s = (r, s', posted)"
  shows "(\<exists>ts. cached (now1 env) s = Some ts \<and> r = Inr ts \<and> s' = s \<and> posted = []) \<or>
         (cached (now1 env) s = None \<and> posted = [] \<and> s' = s \<and> (\<exists>e. r = Inl e)) \<or>
         (cached (now1 env) s = None \<and>
          (\<exists>accessToken endpoint req.
             ensureValidToken env = Inr accessToken \<and>
             getMCPEndpoint (getAccountId env) = Inr endpoint \<and>
             req = list_request endpoint accessToken (requestId env) \<and>
             posted = [req] \<and> listing_fails (remote env req) \<and> s' = s \<and> (\<exists>e. r = Inl e))) \<or>
         (cached (now1 env) s = None \<and>
          (\<exists>accessToken endpoint req st d.
             ensureValidToken env = Inr accessToken \<and>
             getMCPEndpoint (getAccountId env) = Inr endpoint \<and>
             req = list_request endpoint accessToken (requestId env) \<and>
             posted = [req] \<and> \<not> listing_fails (remote env req) \<and>
             remote env req = Reply st d \<and> 200 \<le> st \<and> st < 300 \<and> rpc_error d = None \<and>
             (case result_tools d of
                Some ts \<Rightarrow>
                  r = Inr ts \<and> s' = s\<lparr>toolsCache := Some ts, lastToolsFetch := Some (now2 env)\<rparr>
              | None \<Rightarrow> r = Inr [] \<and> s' = s)))"
proof (cases "cached (now1 env) s")
  case (Some ts)
  with assms show ?thesis by (auto simp: fetchTools_def)
next
  case None
  show ?thesis
  proof (cases "ensureValidToken env")
    case (Inl e)
    with None assms show ?thesis by (auto simp: fetchTools_def)
  next
    case tok: (Inr accessToken)
    show ?thesis
    proof (cases "getMCPEndpoint (getAccountId env)")
      case (Inl e)
      with None tok assms show ?thesis by (auto simp: fetchTools_def)
    next
      case ep: (Inr endpoint)
      let ?req = "list_request endpoint accessToken (requestId env)"
      show ?thesis
      proof (cases "remote env ?req")
        case (NoReply m)
        with None tok ep assms show ?thesis
          by (auto simp: fetchTools_def listing_fails_def)
      next
        case (Reply st d)
        show ?thesis
        proof (cases "validateStatus st")
          case False
          with Reply None tok ep assms show ?thesis
            by (auto simp: fetchTools_def listing_fails_def)
        next
          case True
          with Reply None tok ep assms show ?thesis
            by (cases "rpc_error d"; cases "result_tools d")
               (auto simp: fetchTools_def listing_fails_def validateStatus_def)
        qed
      qed
    qed
  qed
qed

lemma cached_SomeI:
  "toolsCache s = Some ts \<Longrightarrow> lastToolsFetch s = Some f \<Longrightarrow> f \<noteq> 0 \<Longrightarrow>
   t - f < toolsCacheTTL \<Longrightarrow> cached t s = Some ts"
  by (simp add: cached_def)

text \<open>
  C8.  Let a call of \<open>fetchTools\<close> return or throw \<open>r\<close>, leave the object in state \<open>s'\<close>
  and have posted the requests \<open>posted\<close>.  The call posts nothing or the one listing
  request.  A list returned without asking the remote end is the cached list, and its
  age, the time of the call minus the time it was fetched, is below 300000 milliseconds;
  so with a cache entry of age 300000 or more the call asks the remote end or throws.  A
  list returned after asking is the \<^verbatim>\<open>result.tools\<close> of the answer, which had a status
  from 200 to 299 and no \<^verbatim>\<open>error\<close>, and is stored with the time of the store; it is the
  empty list, with nothing stored, when the answer had no such member.  When the remote
  listing call fails, and whenever the call throws, the cache entry and its time stamp
  are as before and the result is an error.  A cached list younger than 300000
  milliseconds is returned as it is, and an answer that does not fail gives a list.
\<close>

theorem fetchTools_cache:
  assumes "fetchTools env s = (r, s', posted)"
  shows "(posted = [] \<or>
          (\<exists>accessToken endpoint.
             ensureValidToken env = Inr accessToken \<and>
             getMCPEndpoint (getAccountId env) = Inr endpoint \<and>
             posted = [list_request endpoint accessToken (requestId env)])) \<and>
         (\<forall>ts. r = Inr ts \<and> posted = [] \<longrightarrow>
            s' = s \<and> toolsCache s = Some ts \<and>
            (\<exists>f. lastToolsFetch s = Some f \<and> now1 env - f < 300000)) \<and>
         (\<forall>f. lastToolsFetch s = Some f \<and> 300000 \<le> now1 env - f \<longrightarrow>
            (\<exists>e. r = Inl e) \<or> posted \<noteq> []) \<and>
         (\<forall>ts. r = Inr ts \<and> posted \<noteq> [] \<longrightarrow>
            (\<exists>req st d. posted = [req] \<and> remote env req = Reply st d \<and>
               200 \<le> st \<and> st < 300 \<and> rpc_error d = None \<and>
               ((result_tools d = Some ts \<and>
                 s' = s\<lparr>toolsCache := Some ts, lastToolsFetch := Some (now2 env)\<rparr>) \<or>
                (result_tools d = None \<and> ts = [] \<and> s' = s)))) \<and>
         (\<forall>req. req \<in> set posted \<and> listing_fails (remote env req) \<longrightarrow>
            s' = s \<and> (\<exists>e. r = Inl e)) \<and>
         (\<forall>e. r = Inl e \<longrightarrow> s' = s) \<and>
         (\<forall>ts f. toolsCache s = Some ts \<and> lastToolsFetch s = Some f \<and> f \<noteq> 0 \<and>
                 now1 env - f < 300000 \<longrightarrow>
            r = Inr ts \<and> s' = s \<and> posted = []) \<and>
         (\<forall>req. req \<in> set posted \<and> \<not> listing_fails (remote env req) \<longrightarrow> (\<exists>ts. r = Inr ts))"
proof -
  note cases = fetchTools_cases [OF assms]
  have shape: "posted = [] \<or>
          (\<exists>accessToken endpoint.
             ensureValidToken env = Inr accessToken \<and>
             getMCPEndpoint (getAccountId env) = Inr endpoint \<and>
             posted = [list_request endpoint accessToken (requestId env)])"
    using cases by auto
  have hit: "\<forall>ts. r = Inr ts \<and> posted = [] \<longrightarrow>
            s' = s \<and> toolsCache s = Some ts \<and>
            (\<exists>f. lastToolsFetch s = Some f \<and> now1 env - f < 300000)"
    using cases by (auto simp: toolsCacheTTL_def dest!: cached_SomeD)
  have stale: "\<forall>f. lastToolsFetch s = Some f \<and> 300000 \<le> now1 env - f \<longrightarrow>
            (\<exists>e. r = Inl e) \<or> posted \<noteq> []"
    using cases by (auto simp: toolsCacheTTL_def dest!: cached_SomeD)
  have fetched: "\<forall>ts. r = Inr ts \<and> posted \<noteq> [] \<longrightarrow>
            (\<exists>req st d. posted = [req] \<and> remote env req = Reply st d \<and>
               200 \<le> st \<and> st < 300 \<and> rpc_error d = None \<and>
               ((result_tools d = Some ts \<and>
                 s' = s\<lparr>toolsCache := Some ts, lastToolsFetch := Some (now2 env)\<rparr>) \<or>
                (result_tools d = None \<and> ts = [] \<and> s' = s)))"
    using cases by (auto split: option.splits)
  have failed: "\<forall>req. req \<in> set posted \<and> listing_fails (remote env req) \<longrightarrow>
            s' = s \<and> (\<exists>e. r = Inl e)"
    using cases by auto
  have thrown: "\<forall>e. r = Inl e \<longrightarrow> s' = s"
    using cases by (auto split: option.splits)
  have fresh: "\<forall>ts f. toolsCache s = Some ts \<and> lastToolsFetch s = Some f \<and> f \<noteq> 0 \<and>
                 now1 env - f < 300000 \<longrightarrow>
            r = Inr ts \<and> s' = s \<and> posted = []"
  proof (intro allI impI)
    fix ts f
    assume h: "toolsCache s = Some ts \<and> lastToolsFetch s = Some f \<and> f \<noteq> 0 \<and>
                 now1 env - f < 300000"
    then have "cached (now1 env) s = Some ts"
      by (simp add: cached_SomeI toolsCacheTTL_def)
    with cases show "r = Inr ts \<and> s' = s \<and> posted = []" by auto
  qed
  have answered: "\<forall>req. req \<in> set posted \<and> \<not> listing_fails (remote env req) \<longrightarrow>
            (\<exists>ts. r = Inr ts)"
    using cases by (auto split: option.splits)
  from shape hit stale fetched failed thrown fresh answered show ?thesis by blast
qed

theorem fetchTools_cache_witness:
  "fetchTools \<lparr>now1 = 999999, now2 = 1000050, ensureValidToken = Inr ''AT1'',
               getAccountId = Inr (Some ''123-sb1''), requestId = ''mcp-1'',
               remote = (\<lambda>r. Reply 500 \<lparr>rpc_error = None, result_tools = None\<rparr>)\<rparr>
      \<lparr>toolsCache = Some [''ns_getRecord''], lastToolsFetch = Some 700000\<rparr> =
     (Inr [''ns_getRecord''],
      \<lparr>toolsCache = Some [''ns_getRecord''], lastToolsFetch = Some 700000\<rparr>, []) \<and>
   fetchTools \<lparr>now1 = 1000000, now2 = 1000050, ensureValidToken = Inr ''AT1'',
               getAccountId = Inr (Some ''123-sb1''), requestId = ''mcp-1'',
               remote = (\<lambda>r. Reply 500 \<lparr>rpc_error = None, result_tools = None\<rparr>)\<rparr>
      \<lparr>toolsCache = Some [''ns_getRecord''], lastToolsFetch = Some 700000\<rparr> =
     (Inl (Error ''Failed to fetch tools: Request failed with status code 500''),
      \<lparr>toolsCache = Some [''ns_getRecord''], lastToolsFetch = Some 700000\<rparr>,
      [list_request (mcp_endpoint ''123-sb1'') ''AT1'' ''mcp-1'']) \<and>
   listing_fails (Reply 500 \<lparr>rpc_error = None, result_tools = (None :: string list option)\<rparr>)"
proof -
  let ?remote = "\<lambda>r::http_request. Reply 500 \<lparr>rpc_error = None, result_tools = (None :: string list option)\<rparr>"
  let ?fresh = "\<lparr>now1 = 999999, now2 = 1000050, ensureValidToken = Inr ''AT1'',
               getAccountId = Inr (Some ''123-sb1''), requestId = ''mcp-1'', remote = ?remote\<rparr>"
  let ?stale = "\<lparr>now1 = 1000000, now2 = 1000050, ensureValidToken = Inr ''AT1'',
               getAccountId = Inr (Some ''123-sb1''), requestId = ''mcp-1'', remote = ?remote\<rparr>"
  let ?s = "\<lparr>toolsCache = Some [''ns_getRecord''], lastToolsFetch = Some 700000\<rparr>"
  let ?req = "list_request (mcp_endpoint ''123-sb1'') ''AT1'' ''mcp-1''"
  have hit: "fetchTools ?fresh ?s = (Inr [''ns_getRecord''], ?s, [])"
    by (simp add: fetchTools_def cached_def toolsCacheTTL_def)
  have miss: "fetchTools ?stale ?s =
      (Inl (Error ''Failed to fetch tools: Request failed with status code 500''), ?s, [?req])"
    by (simp add: fetchTools_def cached_def toolsCacheTTL_def getMCPEndpoint_def
          validateStatus_def fetch_failure_def decimal_500 Let_def)
  have fails: "listing_fails (remote ?stale ?req)"
    by (simp add: listing_fails_def validateStatus_def)
  from fetchTools_cache [OF hit] fetchTools_cache [OF miss] hit miss fails
  show ?thesis by simp
qed

text \<open>With the same stale entry and a remote end that answers, the new list is stored.\<close>

lemma fetchTools_refresh_example:
  "fetchTools \<lparr>now1 = 1000000, now2 = 1000050, ensureValidToken = Inr ''AT1'',
               getAccountId = Inr (Some ''123-sb1''), requestId = ''mcp-1'',
               remote = (\<lambda>r. Reply 200 \<lparr>rpc_error = None,
                                           result_tools = Some [''ns_runReport'']\<rparr>)\<rparr>
      \<lparr>toolsCache = Some [''ns_getRecord''], lastToolsFetch = Some 700000\<rparr> =
     (Inr [''ns_runReport''],
      \<lparr>toolsCache = Some [''ns_runReport''], lastToolsFetch = Some 1000050\<rparr>,
      [list_request (mcp_endpoint ''123-sb1'') ''AT1'' ''mcp-1''])"
  by (simp add: fetchTools_def cached_def toolsCacheTTL_def getMCPEndpoint_def
        validateStatus_def Let_def)

section \<open>PKCE: properties\<close>

text \<open>The encoding on the test vectors of RFC 4648, and on bytes that print as \<^verbatim>\<open>+\<close> and \<^verbatim>\<open>/\<close>.\<close>

lemma base64_vectors:
  "base64 (string_bytes ''f'') = ''Zg==''"
  "base64 (string_bytes ''fo'') = ''Zm8=''"
  "base64 (string_bytes ''foobar'') = ''Zm9vYmFy''"
  "base64 [251, 255, 254] = ''+//+''"
  by code_simp+

lemma base64URLEncode_vectors:
  "base64URLEncode (string_bytes ''f'') = ''Zg''"
  "base64URLEncode [251, 255, 254] = ''-__-''"
  "base64URLEncode [251, 255] = ''-_8''"
  by code_simp+

lemma decode_vectors:
  "base64url_decode ''-_8'' = Some [251, 255]"
  "base64url_decode ''Zg'' = Some (string_bytes ''f'')"
  "base64url_decode ''Z'' = None"
  "base64url_decode ''Zg!'' = None"
  by code_simp+

text \<open>
  A property of every group of six bits is checked on the 64 groups.
\<close>

lemma sextet_cases:
  assumes "list_all P (map of_nat [0..<64])"
  shows "P (w::sextet)"
proof -
  have "unat w < 2 ^ LENGTH(6)" by (rule unsigned_less)
  then have "unat w \<in> set [0..<64]" by simp
  then have "(of_nat (unat w) :: sextet) \<in> of_nat ` set [0..<64]"
    by (rule imageI)
  with assms have "P (of_nat (unat w))" by (simp only: list_all_iff set_map)
  then show ?thesis by simp
qed

lemma b64_char_not_pad: "b64_char w \<noteq> CHR ''=''"
  by (rule sextet_cases [where w = w]) code_simp

lemma b64_value_char: "b64_value (b64_char w) = Some w"
  by (rule sextet_cases [where w = w]) code_simp

lemma from_url_char: "from_url (url_char w) = b64_char w"
  by (rule sextet_cases [where w = w]) code_simp

lemma byte_eqI:
  fixes x y :: byte
  assumes "\<And>n. n \<in> {0, 1, 2, 3, 4, 5, 6, 7} \<Longrightarrow> bit x n = bit y n"
  shows "x = y"
proof (rule bit_word_eqI)
  fix n :: nat
  assume "n < LENGTH(8)"
  then have "n \<in> {0, 1, 2, 3, 4, 5, 6, 7}" by auto
  then show "bit x n = bit y n" by (rule assms)
qed

lemma byte0_sextets: "byte0 (sextet0 a) (sextet1 a b) = a"
  unfolding byte0_def sextet0_def sextet1_def
  by (rule byte_eqI, elim insertE emptyE) (auto simp: bit_simps dest: bit_imp_le_length)

lemma byte1_sextets: "byte1 (sextet1 a b) (sextet2 b c) = b"
  unfolding byte1_def sextet1_def sextet2_def
  by (rule byte_eqI, elim insertE emptyE) (auto simp: bit_simps dest: bit_imp_le_length)

lemma byte2_sextets: "byte2 (sextet2 b c) (sextet3 c) = c"
  unfolding byte2_def sextet2_def sextet3_def
  by (rule byte_eqI, elim insertE emptyE) (auto simp: bit_simps dest: bit_imp_le_length)

lemma replace_Nil [simp]: "replace c r [] = []"
  by (simp add: replace_def)

lemma replace_Cons: "replace c r (x # xs) = (if x = c then r else [x]) @ replace c r xs"
  by (simp add: replace_def)

lemma replace_append: "replace c r (xs @ ys) = replace c r xs @ replace c r ys"
  by (simp add: replace_def)

lemma url_safe_Nil [simp]: "url_safe [] = []"
  by (simp add: url_safe_def)

lemma url_safe_Cons: "url_safe (x # xs) = url_safe [x] @ url_safe xs"
proof -
  have "url_safe ([x] @ xs) = url_safe [x] @ url_safe xs"
    unfolding url_safe_def by (simp only: replace_append)
  then show ?thesis by simp
qed

lemma url_safe_char: "url_safe [b64_char w] = [url_char w]"
  by (rule sextet_cases [where w = w]) code_simp

lemma url_safe_pad: "url_safe [CHR ''=''] = []"
  by (simp add: url_safe_def replace_Cons)

lemma url_safe_char_Cons [simp]: "url_safe (b64_char w # xs) = url_char w # url_safe xs"
  using url_safe_Cons [of "b64_char w" xs] by (simp add: url_safe_char)

lemma url_safe_pad_Cons [simp]: "url_safe (CHR ''='' # xs) = url_safe xs"
  using url_safe_Cons [of "CHR ''=''" xs] by (simp add: url_safe_pad)

lemma base64URLEncode_nopad: "base64URLEncode bs = base64url_nopad bs"
proof -
  have "url_safe (base64 bs) = base64url_nopad bs"
    by (induction bs rule: base64.induct) simp_all
  then show ?thesis by (simp add: base64URLEncode_def url_safe_def)
qed

lemma url_char_safe:
  "url_char w \<noteq> CHR ''+'' \<and> url_char w \<noteq> CHR ''/'' \<and> url_char w \<noteq> CHR ''=''"
  by (rule sextet_cases [where w = w]) code_simp

lemma nopad_chars: "c \<in> set (base64url_nopad bs) \<Longrightarrow> \<exists>w. c = url_char w"
  by (induction bs rule: base64url_nopad.induct) auto

lemma nopad_safe:
  "CHR ''+'' \<notin> set (base64url_nopad bs) \<and> CHR ''/'' \<notin> set (base64url_nopad bs) \<and>
   CHR ''='' \<notin> set (base64url_nopad bs)"
  using nopad_chars [of _ bs] url_char_safe by metis

lemma restore_padding_four:
  "restore_padding (c0 # c1 # c2 # c3 # s) = c0 # c1 # c2 # c3 # restore_padding s"
  by (simp add: restore_padding_def)

lemma restore_nopad: "restore_padding (map from_url (base64url_nopad bs)) = base64 bs"
proof (induction bs rule: base64.induct)
  case (1 a b c rest)
  then show ?case by (simp add: restore_padding_four from_url_char)
next
  case (2 a b)
  show ?case by (simp add: restore_padding_def from_url_char)
next
  case (3 a)
  show ?case by (simp add: restore_padding_def from_url_char numeral_2_eq_2)
next
  case 4
  show ?case by (simp add: restore_padding_def)
qed

lemma base64_decode_base64: "base64_decode (base64 bs) = Some bs"
proof (induction bs rule: base64.induct)
  case (1 a b c rest)
  then show ?case
    by (simp add: b64_value_char b64_char_not_pad byte0_sextets byte1_sextets byte2_sextets)
next
  case (2 a b)
  show ?case
    by (simp add: b64_value_char b64_char_not_pad byte0_sextets byte1_sextets)
next
  case (3 a)
  show ?case by (simp add: b64_value_char byte0_sextets)
next
  case 4
  show ?case by simp
qed

lemma decode_encode: "base64url_decode (base64URLEncode bs) = Some bs"
  by (simp add: base64url_decode_def base64URLEncode_nopad restore_nopad base64_decode_base64)

lemma length_nopad: "length (base64url_nopad bs) = (4 * length bs + 2) div 3"
  by (induction bs rule: base64url_nopad.induct) simp_all

text \<open>A verifier has 43 characters.\<close>

lemma length_verifier: "length (code_verifier (fst (generatePKCE sha256 entropy))) = 43"
  by (simp add: generatePKCE_def randomBytes_def Let_def base64URLEncode_nopad length_nopad)

lemma verifier_eq:
  "code_verifier (fst (generatePKCE sha256 entropy)) = base64URLEncode (stake 32 entropy)"
  by (simp add: generatePKCE_def randomBytes_def Let_def)

text \<open>
  C2.  In the pair that \<open>generatePKCE\<close> returns, the verifier is the URL-safe base 64
  encoding without padding of the next 32 bytes of the entropy source, the challenge is
  that encoding of the SHA-256 digest of the verifier's characters, the method is
  \<^verbatim>\<open>S256\<close>, and neither string has a \<^verbatim>\<open>+\<close>, a \<^verbatim>\<open>/\<close> or a \<^verbatim>\<open>=\<close>.
\<close>

theorem generatePKCE_contract:
  "code_verifier (fst (generatePKCE sha256 entropy)) = base64url_nopad (stake 32 entropy) \<and>
   length (stake 32 entropy) = 32 \<and>
   code_challenge (fst (generatePKCE sha256 entropy)) =
     base64url_nopad (sha256 (string_bytes (code_verifier (fst (generatePKCE sha256 entropy))))) \<and>
   code_challenge_method (fst (generatePKCE sha256 entropy)) = ''S256'' \<and>
   CHR ''+'' \<notin> set (code_verifier (fst (generatePKCE sha256 entropy))) \<and>
   CHR ''/'' \<notin> set (code_verifier (fst (generatePKCE sha256 entropy))) \<and>
   CHR ''='' \<notin> set (code_verifier (fst (generatePKCE sha256 entropy))) \<and>
   CHR ''+'' \<notin> set (code_challenge (fst (generatePKCE sha256 entropy))) \<and>
   CHR ''/'' \<notin> set (code_challenge (fst (generatePKCE sha256 entropy))) \<and>
   CHR ''='' \<notin> set (code_challenge (fst (generatePKCE sha256 entropy)))"
  by (simp add: generatePKCE_def randomBytes_def Let_def base64URLEncode_nopad nopad_safe)

text \<open>
  C9.  Decoding what \<open>base64URLEncode\<close> prints gives back the bytes, for every list of
  bytes; hence the encoding is injective, and the 32 random bytes of a verifier are
  recovered from the verifier.
\<close>

theorem base64URLEncode_roundtrip:
  "base64url_decode (base64URLEncode b) = Some b \<and>
   inj base64URLEncode \<and>
   base64url_decode (code_verifier (fst (generatePKCE sha256 entropy))) = Some (stake 32 entropy)"
proof -
  have "inj base64URLEncode"
    by (rule inj_on_inverseI [where g = "\<lambda>s. the (base64url_decode s)"]) (simp add: decode_encode)
  then show ?thesis by (simp add: decode_encode verifier_eq)
qed

theorem base64URLEncode_roundtrip_witness:
  "base64URLEncode [251, 255] = ''-_8'' \<and> base64url_decode ''-_8'' = Some [251, 255]"
proof -
  have enc: "base64URLEncode [251, 255] = ''-_8''" by code_simp
  from base64URLEncode_roundtrip [of "[251, 255]"] enc show ?thesis by simp
qed

end
